theory Spec2Isabelle
  imports
    Main
    "HOL-Library.Char_ord"
    "HOL-Library.List_Lexorder"
    "HOL-Library.Product_Lexorder"
    "HOL-Library.Sublist"
begin

section \<open>The persistence layer (app/utils/db.ts)\<close>

text \<open>
  The application keeps its data in a browser key-value database with one object store per
  kind of record. A \<open>Date\<close> is its number of milliseconds since the epoch, a \<open>Blob\<close> its
  content. Ids, position references and colour names are strings; they are compared unit by
  unit, which is the order the database uses for string keys. Text that the user reads or
  types (the text of a highlight, a note, a search term) is a list of UTF-16 code units, each
  a number below 65536.
\<close>

type_synonym date = int

type_synonym ustring = "nat list"

record Book =
  book_id :: string
  book_title :: string
  book_authors :: "string list"
  book_markdown :: string
  book_locations :: string
  book_file :: string
  book_cover :: string
  book_createdAt :: date
  book_updatedAt :: date
  book_location :: "(string \<times> string \<times> int) option"

record Highlight =
  hl_id :: string
  hl_bookId :: string
  hl_cfiRange :: string
  hl_text :: ustring
  hl_color :: string
  hl_note :: "ustring option"
  hl_createdAt :: date
  hl_updatedAt :: date

text \<open>
  A promise either resolves with a value or rejects. The two collaborators whose calls can
  reject or throw are the storage layer and the rendering engine's annotation interface.
\<close>

datatype error = StorageError | OverlayError | NetworkError | ParseError

text \<open>
  The database after \<open>initDB\<close>: the upgrade callback creates every store that is missing, so
  each operation finds the stores \<open>books\<close> and \<open>highlights\<close> (the stores \<open>settings\<close> and
  \<open>chats\<close> are not touched by any operation modelled here). A store holds at most one
  record per primary key (key path \<open>id\<close>), in ascending key order.
\<close>

record database =
  books :: "Book list"
  highlights :: "Highlight list"

subsection \<open>The object store primitives\<close>

text \<open>
  \<open>put\<close> inserts the record or replaces the record with the same primary key, and resolves
  with the key. \<open>delete\<close> removes the record with the key if there is one, and resolves
  whether there was one or not. The first argument says whether the storage layer carries
  the call out; when it does not (the database cannot be opened, or the write is rejected for
  quota or I/O) the promise rejects and the store is as before.
\<close>

definition idb_put ::
  "bool \<Rightarrow> ('r \<Rightarrow> string) \<Rightarrow> 'r \<Rightarrow> 'r list \<Rightarrow> error + (string \<times> 'r list)" where
  "idb_put ok key r s =
     (if ok then Inr (key r, insort_key key r (filter (\<lambda>x. key x \<noteq> key r) s))
      else Inl StorageError)"

definition idb_delete ::
  "bool \<Rightarrow> ('r \<Rightarrow> string) \<Rightarrow> string \<Rightarrow> 'r list \<Rightarrow> error + 'r list" where
  "idb_delete ok key k s =
     (if ok then Inr (filter (\<lambda>x. key x \<noteq> k) s) else Inl StorageError)"

text \<open>
  An index lists the records of its store in ascending order of the index key, and records
  with equal index keys in ascending order of their primary keys. \<open>getAll\<close> with a key range
  returns the records whose index key lies in the range, in index order; a cursor opened
  with direction \<open>prev\<close> walks the index backwards.
\<close>

definition idb_index ::
  "('r \<Rightarrow> 'k::linorder) \<Rightarrow> ('r \<Rightarrow> string) \<Rightarrow> 'r list \<Rightarrow> 'r list" where
  "idb_index ikey key s = sort_key (\<lambda>r. (ikey r, key r)) s"

definition IDBKeyRange_bound :: "'k::linorder \<Rightarrow> 'k \<Rightarrow> 'k \<Rightarrow> bool" where
  "IDBKeyRange_bound lower upper k = (lower \<le> k \<and> k \<le> upper)"

definition idb_index_getAll ::
  "('r \<Rightarrow> 'k::linorder) \<Rightarrow> ('r \<Rightarrow> string) \<Rightarrow> ('k \<Rightarrow> bool) \<Rightarrow> 'r list \<Rightarrow> 'r list" where
  "idb_index_getAll ikey key rng s = filter (\<lambda>r. rng (ikey r)) (idb_index ikey key s)"

definition idb_index_openCursor_prev ::
  "('r \<Rightarrow> 'k::linorder) \<Rightarrow> ('r \<Rightarrow> string) \<Rightarrow> 'r list \<Rightarrow> 'r list" where
  "idb_index_openCursor_prev ikey key s = rev (idb_index ikey key s)"

text \<open>The loop \<open>while (cursor) { out.push(cursor.value); cursor = await cursor.continue(); }\<close>.\<close>

fun cursor_loop :: "'r list \<Rightarrow> 'r list \<Rightarrow> 'r list" where
  "cursor_loop out [] = out"
| "cursor_loop out (v # rest) = cursor_loop (out @ [v]) rest"

subsection \<open>Books\<close>

definition addBook :: "bool \<Rightarrow> database \<Rightarrow> Book \<Rightarrow> (error + string) \<times> database" where
  "addBook ok db book =
     (case idb_put ok book_id book (books db) of
        Inl e \<Rightarrow> (Inl e, db)
      | Inr (k, s) \<Rightarrow> (Inr k, db\<lparr>books := s\<rparr>))"

definition deleteBook :: "bool \<Rightarrow> database \<Rightarrow> string \<Rightarrow> (error + unit) \<times> database" where
  "deleteBook ok db ident =
     (case idb_delete ok book_id ident (books db) of
        Inl e \<Rightarrow> (Inl e, db)
      | Inr s \<Rightarrow> (Inr (), db\<lparr>books := s\<rparr>))"

subsection \<open>Highlights\<close>

text \<open>
  \<open>addHighlight\<close> and \<open>updateHighlight\<close> open the database, stamp the caller's object and
  write it. When the call resolves, the model returns the stamped object beside the key. A
  call rejects when the database cannot be opened, which is before the stamping, or when the
  write is rejected, which is after it; the one flag stands for both, so a rejected call
  returns the error and the database as it was, and nothing about the caller's object. The
  clock readings of the \<open>new Date()\<close> calls are arguments.
\<close>

definition addHighlight ::
  "bool \<Rightarrow> database \<Rightarrow> Highlight \<Rightarrow> date \<Rightarrow> date \<Rightarrow> (error + string \<times> Highlight) \<times> database" where
  "addHighlight ok db highlight t1 t2 =
     (let h = highlight\<lparr>hl_createdAt := t1, hl_updatedAt := t2\<rparr> in
      case idb_put ok hl_id h (highlights db) of
        Inl e \<Rightarrow> (Inl e, db)
      | Inr (k, s) \<Rightarrow> (Inr (k, h), db\<lparr>highlights := s\<rparr>))"

definition year_ms :: int where
  "year_ms = 1000 * 60 * 60 * 24 * 365"

definition getHighlightsByBook :: "database \<Rightarrow> string \<Rightarrow> date \<Rightarrow> Highlight list" where
  "getHighlightsByBook db bookId now =
     idb_index_getAll (\<lambda>h. (hl_bookId h, hl_createdAt h)) hl_id
       (IDBKeyRange_bound (bookId, 0) (bookId, now + year_ms)) (highlights db)"

definition updateHighlight ::
  "bool \<Rightarrow> database \<Rightarrow> Highlight \<Rightarrow> date \<Rightarrow> (error + string \<times> Highlight) \<times> database" where
  "updateHighlight ok db highlight t =
     (let h = highlight\<lparr>hl_updatedAt := t\<rparr> in
      case idb_put ok hl_id h (highlights db) of
        Inl e \<Rightarrow> (Inl e, db)
      | Inr (k, s) \<Rightarrow> (Inr (k, h), db\<lparr>highlights := s\<rparr>))"

definition deleteHighlight :: "bool \<Rightarrow> database \<Rightarrow> string \<Rightarrow> (error + unit) \<times> database" where
  "deleteHighlight ok db highlightId =
     (case idb_delete ok hl_id highlightId (highlights db) of
        Inl e \<Rightarrow> (Inl e, db)
      | Inr s \<Rightarrow> (Inr (), db\<lparr>highlights := s\<rparr>))"

definition getAllHighlights :: "database \<Rightarrow> Highlight list" where
  "getAllHighlights db = cursor_loop [] (idb_index_openCursor_prev hl_updatedAt hl_id (highlights db))"

section \<open>The highlights panel (app/components/HighlightsPanel.tsx)\<close>














section \<open>The reader's highlight handlers (app/routes/books.$bookId.tsx)\<close>

text \<open>
  What the handlers read and write: the database, the overlays the rendering engine has
  registered (position reference, highlight id, fill colour), the component's state, whether
  the book and rendition references are set, and the console. The effects on the two
  collaborators are also recorded in the order they happen.
\<close>

datatype effect = Persisted string | Registered string | Unregistered string | Deleted string

record session =
  store :: database
  annotations :: "(string \<times> string \<times> string) list"
  currentBookHighlights :: "Highlight list"
  selectionCfiRange :: "string option"
  selectionText :: "ustring option"
  activeHighlightId :: "string option"
  activeHighlightCfiRange :: "string option"
  showHighlightPopup :: bool
  bookRef_current :: bool
  renditionRef_current :: bool
  console_errors :: "string list"
  effects :: "effect list"

text \<open>A string state is truthy when it is neither \<open>null\<close> nor the empty string.\<close>

fun truthy :: "'a list option \<Rightarrow> bool" where
  "truthy None = False"
| "truthy (Some v) = (v \<noteq> [])"

text \<open>
  The annotation interface of the rendering engine: \<open>add\<close> registers the overlay under its
  position reference, \<open>remove\<close> drops the overlay registered under it. The first argument says
  whether the engine carries the call out or throws.
\<close>

definition annotations_add ::
  "bool \<Rightarrow> string \<Rightarrow> string \<Rightarrow> string \<Rightarrow> (string \<times> string \<times> string) list
     \<Rightarrow> error + (string \<times> string \<times> string) list" where
  "annotations_add ok cfi ident color anns =
     (if ok then Inr (filter (\<lambda>a. fst a \<noteq> cfi) anns @ [(cfi, ident, color)]) else Inl OverlayError)"

definition annotations_remove ::
  "bool \<Rightarrow> string \<Rightarrow> (string \<times> string \<times> string) list \<Rightarrow> error + (string \<times> string \<times> string) list" where
  "annotations_remove ok cfi anns =
     (if ok then Inr (filter (\<lambda>a. fst a \<noteq> cfi) anns) else Inl OverlayError)"

text \<open>
  \<open>handleHighlightSelection\<close>. The arguments before the colour are the outcomes of the
  storage layer and of the engine, the id of the open book, the fresh uuid and the clock
  (\<open>clock k\<close> is the reading of the \<open>k\<close>-th \<open>new Date()\<close> of the call).
\<close>

definition handleHighlightSelection ::
  "bool \<Rightarrow> bool \<Rightarrow> string \<Rightarrow> string \<Rightarrow> (nat \<Rightarrow> date) \<Rightarrow> string \<Rightarrow> session \<Rightarrow> session" where
  "handleHighlightSelection storage_ok overlay_ok bookId uuid clock color s =
     (if \<not> truthy (selectionCfiRange s) \<or> \<not> truthy (selectionText s)
         \<or> \<not> bookRef_current s \<or> \<not> renditionRef_current s then s
      else
        let newHighlightData = \<lparr>hl_id = uuid, hl_bookId = bookId,
              hl_cfiRange = the (selectionCfiRange s), hl_text = the (selectionText s),
              hl_color = color, hl_note = None,
              hl_createdAt = clock 0, hl_updatedAt = clock 1\<rparr>
        in
        case addHighlight storage_ok (store s) newHighlightData (clock 2) (clock 3) of
          (Inl e, _) \<Rightarrow> s\<lparr>console_errors := console_errors s @ [''Failed to save highlight:'']\<rparr>
        | (Inr (_, written), db') \<Rightarrow>
            let s1 = s\<lparr>store := db',
                       currentBookHighlights := currentBookHighlights s @ [written],
                       effects := effects s @ [Persisted uuid]\<rparr>
            in
            (case annotations_add overlay_ok (the (selectionCfiRange s)) uuid color (annotations s1) of
               Inl e \<Rightarrow> s1\<lparr>console_errors := console_errors s1 @ [''Failed to save highlight:'']\<rparr>
             | Inr anns \<Rightarrow>
                 s1\<lparr>annotations := anns,
                    effects := effects s1 @ [Registered uuid],
                    showHighlightPopup := False,
                    selectionCfiRange := None,
                    selectionText := None\<rparr>))"

text \<open>\<open>handleRemoveHighlight\<close>, from the action menu of the active highlight.\<close>

definition handleRemoveHighlight :: "bool \<Rightarrow> bool \<Rightarrow> session \<Rightarrow> session" where
  "handleRemoveHighlight storage_ok overlay_ok s =
     (if \<not> truthy (activeHighlightId s) \<or> \<not> truthy (activeHighlightCfiRange s)
         \<or> \<not> renditionRef_current s then s
      else
        case annotations_remove overlay_ok (the (activeHighlightCfiRange s)) (annotations s) of
          Inl e \<Rightarrow> s\<lparr>console_errors := console_errors s @ [''Failed to remove highlight:'']\<rparr>
        | Inr anns \<Rightarrow>
            let s1 = s\<lparr>annotations := anns,
                       effects := effects s @ [Unregistered (the (activeHighlightCfiRange s))]\<rparr>
            in
            (case deleteHighlight storage_ok (store s1) (the (activeHighlightId s)) of
               (Inl e, _) \<Rightarrow> s1\<lparr>console_errors := console_errors s1 @ [''Failed to remove highlight:'']\<rparr>
             | (Inr _, db') \<Rightarrow>
                 s1\<lparr>store := db',
                    effects := effects s1 @ [Deleted (the (activeHighlightId s))],
                    currentBookHighlights :=
                      filter (\<lambda>hl. Some (hl_id hl) \<noteq> activeHighlightId s) (currentBookHighlights s1),
                    showHighlightPopup := False,
                    activeHighlightId := None,
                    activeHighlightCfiRange := None\<rparr>))"

text \<open>\<open>handleRemoveHighlightById\<close>, from a row of the highlights panel.\<close>

definition handleRemoveHighlightById :: "bool \<Rightarrow> bool \<Rightarrow> string \<Rightarrow> session \<Rightarrow> session" where
  "handleRemoveHighlightById storage_ok overlay_ok highlightId s =
     (case find (\<lambda>hl. hl_id hl = highlightId) (currentBookHighlights s) of
        None \<Rightarrow> s
      | Some highlightToRemove \<Rightarrow>
          if \<not> renditionRef_current s then s
          else
            (case annotations_remove overlay_ok (hl_cfiRange highlightToRemove) (annotations s) of
              Inl e \<Rightarrow> s\<lparr>console_errors := console_errors s @ [''Failed to remove highlight by ID:'']\<rparr>
            | Inr anns \<Rightarrow>
                let s1 = s\<lparr>annotations := anns,
                           effects := effects s @ [Unregistered (hl_cfiRange highlightToRemove)]\<rparr>
                in
                (case deleteHighlight storage_ok (store s1) highlightId of
                   (Inl e, _) \<Rightarrow>
                     s1\<lparr>console_errors := console_errors s1 @ [''Failed to remove highlight by ID:'']\<rparr>
                 | (Inr _, db') \<Rightarrow>
                     let s2 = s1\<lparr>store := db',
                                effects := effects s1 @ [Deleted highlightId],
                                currentBookHighlights :=
                                  filter (\<lambda>hl. hl_id hl \<noteq> highlightId) (currentBookHighlights s1)\<rparr>
                     in
                     if activeHighlightId s = Some highlightId
                     then s2\<lparr>showHighlightPopup := False,
                            activeHighlightId := None,
                            activeHighlightCfiRange := None\<rparr>
                     else s2)))"

section \<open>The one-time preload (app/utils/preload.ts)\<close>

text \<open>
  The browser as \<open>preloadBook\<close> sees it: the local storage, the database and the console.
  What \<open>fetch\<close> answers for a path and what \<open>parseEpub\<close> makes of a file are arguments, as is
  the outcome of the storage layer. A response is its \<open>ok\<close> flag, its status text and its
  body; a file is its name and its content.
\<close>

record browser =
  localStorage :: "string \<rightharpoonup> string"
  library :: database
  console_log :: "string list"

definition getItem :: "(string \<rightharpoonup> string) \<Rightarrow> string \<Rightarrow> string option" where
  "getItem ls k = ls k"

definition setItem :: "(string \<rightharpoonup> string) \<Rightarrow> string \<Rightarrow> string \<Rightarrow> (string \<rightharpoonup> string)" where
  "setItem ls k v = ls(k \<mapsto> v)"

text \<open>\<open>s.split(sep)\<close> for a one-character separator; the result is never empty.\<close>

fun split :: "char \<Rightarrow> string \<Rightarrow> string list" where
  "split sep [] = [[]]"
| "split sep (c # cs) =
     (if c = sep then [] # split sep cs
      else case split sep cs of
             [] \<Rightarrow> [[c]]
           | w # ws \<Rightarrow> (c # w) # ws)"

text \<open>The name of the file: the last segment of the path, or \<open>book.epub\<close> when that is empty.\<close>

definition fileName :: "string \<Rightarrow> string" where
  "fileName epubPath =
     (let popped = last (split (CHR ''/'') epubPath) in
      if popped = [] then ''book.epub'' else popped)"

definition preloadBook ::
  "(string \<Rightarrow> error + (bool \<times> string \<times> string)) \<Rightarrow> (string \<times> string \<Rightarrow> error + Book) \<Rightarrow> bool
     \<Rightarrow> string \<Rightarrow> browser \<Rightarrow> browser" where
  "preloadBook fetch parseEpub storage_ok epubPath w =
     (let preloadDone = (getItem (localStorage w) ''preloadDone'' = Some ''true'') in
      if preloadDone then w
      else
        let caught = w\<lparr>console_log := console_log w @ [''Error preloading book:'']\<rparr>;
            w1 =
              (case fetch epubPath of
                 Inl e \<Rightarrow> caught
               | Inr (response_ok, statusText, blob) \<Rightarrow>
                   if \<not> response_ok then caught
                   else
                     (case parseEpub (fileName epubPath, blob) of
                        Inl e \<Rightarrow> caught
                      | Inr book \<Rightarrow>
                          (case addBook storage_ok (library w) book of
                             (Inl e, _) \<Rightarrow> caught
                           | (Inr _, db') \<Rightarrow>
                               w\<lparr>library := db',
                                  console_log := console_log w @ [''Successfully preloaded book:'']\<rparr>)))
        in w1\<lparr>localStorage := setItem (localStorage w1) ''preloadDone'' ''true''\<rparr>)"

section \<open>Scenarios and sample data\<close>

text \<open>The record as \<open>addHighlight\<close> stores it: the caller's record with both timestamps set.\<close>

definition stamp :: "Highlight \<Rightarrow> date \<Rightarrow> date \<Rightarrow> Highlight" where
  "stamp h t1 t2 = h\<lparr>hl_createdAt := t1, hl_updatedAt := t2\<rparr>"

text \<open>A run of creations, each with the two clock readings of its call, all carried out.\<close>

fun create_all :: "database \<Rightarrow> (Highlight \<times> date \<times> date) list \<Rightarrow> database" where
  "create_all db [] = db"
| "create_all db ((h, t1, t2) # cs) = create_all (snd (addHighlight True db h t1 t2)) cs"

text \<open>\<open>before xs x y\<close>: the element \<open>y\<close> stands after the first \<open>x\<close> in the list.\<close>

fun before :: "'a list \<Rightarrow> 'a \<Rightarrow> 'a \<Rightarrow> bool" where
  "before [] x y = False"
| "before (z # zs) x y = (if z = x then y \<in> set zs else before zs x y)"

definition sample_book :: Book where
  "sample_book = \<lparr>book_id = ''doc1'', book_title = ''Foundation'', book_authors = [''Asimov''],
     book_markdown = [], book_locations = [], book_file = [], book_cover = [],
     book_createdAt = 1, book_updatedAt = 1, book_location = None\<rparr>"

text \<open>The code units of an ASCII string.\<close>

definition code_units :: "string \<Rightarrow> ustring" where
  "code_units s = map of_char s"

definition sample_hl :: "string \<Rightarrow> string \<Rightarrow> string \<Rightarrow> Highlight" where
  "sample_hl ident doc cfi = \<lparr>hl_id = ident, hl_bookId = doc, hl_cfiRange = cfi,
     hl_text = code_units ''hello world'', hl_color = ''yellow'', hl_note = None,
     hl_createdAt = 0, hl_updatedAt = 0\<rparr>"

definition empty_db :: database where
  "empty_db = \<lparr>books = [], highlights = []\<rparr>"

definition hlA :: Highlight where "hlA = sample_hl ''h1'' ''doc1'' ''cfi1''"
definition hlB :: Highlight where "hlB = sample_hl ''h2'' ''doc1'' ''cfi2''"
definition hlX :: Highlight where "hlX = sample_hl ''h3'' ''doc2'' ''cfi3''"




text \<open>
  A session with the highlight \<open>h1\<close> stored, drawn and active, and a session with a fresh
  selection and nothing stored.
\<close>

definition reading_session :: session where
  "reading_session = \<lparr>store = \<lparr>books = [sample_book], highlights = [hlA]\<rparr>,
     annotations = [(''cfi1'', ''h1'', ''yellow'')],
     currentBookHighlights = [hlA],
     selectionCfiRange = None, selectionText = None,
     activeHighlightId = Some ''h1'', activeHighlightCfiRange = Some ''cfi1'',
     showHighlightPopup = True, bookRef_current = True, renditionRef_current = True,
     console_errors = [], effects = []\<rparr>"

definition selecting_session :: session where
  "selecting_session = \<lparr>store = \<lparr>books = [sample_book], highlights = []\<rparr>,
     annotations = [],
     currentBookHighlights = [],
     selectionCfiRange = Some ''cfi9'', selectionText = Some (code_units ''hello world''),
     activeHighlightId = None, activeHighlightCfiRange = None,
     showHighlightPopup = True, bookRef_current = True, renditionRef_current = True,
     console_errors = [], effects = []\<rparr>"

text \<open>A browser that has never preloaded, and outcomes of \<open>fetch\<close> and \<open>parseEpub\<close>.\<close>

definition fresh_browser :: browser where
  "fresh_browser = \<lparr>localStorage = Map.empty, library = empty_db, console_log = []\<rparr>"

definition fetch_fails :: "string \<Rightarrow> error + (bool \<times> string \<times> string)" where
  "fetch_fails path = Inl NetworkError"

definition fetch_ok :: "string \<Rightarrow> error + (bool \<times> string \<times> string)" where
  "fetch_ok path = Inr (True, ''OK'', ''epub bytes'')"

definition parse_ok :: "string \<times> string \<Rightarrow> error + Book" where
  "parse_ok f = Inr sample_book"

section \<open>Properties of the persistence layer\<close>

lemmas eval_defs = addHighlight_def updateHighlight_def deleteHighlight_def deleteBook_def addBook_def
  getHighlightsByBook_def getAllHighlights_def idb_put_def idb_delete_def idb_index_getAll_def
  idb_index_def idb_index_openCursor_prev_def IDBKeyRange_bound_def year_ms_def Let_def
  empty_db_def sample_hl_def sample_book_def hlA_def hlB_def hlX_def stamp_def code_units_def

lemma cursor_loop_append: "cursor_loop out vs = out @ vs"
  by (induction vs arbitrary: out) simp_all

lemma highlights_deleteBook: "highlights (snd (deleteBook ok db ident)) = highlights db"
  by (simp add: deleteBook_def idb_delete_def)

lemma addHighlight_ok:
  "addHighlight True db h t1 t2 =
     (Inr (hl_id h, stamp h t1 t2),
      db\<lparr>highlights := insort_key hl_id (stamp h t1 t2)
            (filter (\<lambda>x. hl_id x \<noteq> hl_id h) (highlights db))\<rparr>)"
  by (simp add: addHighlight_def idb_put_def stamp_def Let_def)

lemma set_addHighlight:
  "set (highlights (snd (addHighlight True db h t1 t2))) =
     insert (stamp h t1 t2) {x \<in> set (highlights db). hl_id x \<noteq> hl_id h}"
  by (auto simp: addHighlight_ok set_insort_key)




lemma set_getHighlightsByBook:
  "set (getHighlightsByBook db d now) =
     {x \<in> set (highlights db). hl_bookId x = d \<and> 0 \<le> hl_createdAt x \<and> hl_createdAt x \<le> now + year_ms}"
  by (auto simp: getHighlightsByBook_def idb_index_getAll_def idb_index_def IDBKeyRange_bound_def)

lemma index_order_getHighlightsByBook:
  "sorted (map (\<lambda>h. ((hl_bookId h, hl_createdAt h), hl_id h)) (getHighlightsByBook db d now))"
  unfolding getHighlightsByBook_def idb_index_getAll_def idb_index_def
  by (rule sorted_filter) (rule sorted_sort_key)

lemma sorted_within_book:
  assumes "sorted (map (\<lambda>h. ((b h, c h), i h)) xs)" and "\<forall>x\<in>set xs. b x = d"
  shows "sorted (map (\<lambda>h. (c h, i h)) xs)"
proof -
  have "sorted_wrt (\<lambda>x y. ((b x, c x), i x) \<le> ((b y, c y), i y)) xs"
    using assms(1) by (simp add: sorted_map)
  then have "sorted_wrt (\<lambda>x y. (c x, i x) \<le> (c y, i y)) xs"
  proof (rule sorted_wrt_mono_rel[rotated])
    fix x y assume "x \<in> set xs" "y \<in> set xs" "((b x, c x), i x) \<le> ((b y, c y), i y)"
    moreover have "b x = b y" using assms(2) calculation by simp
    ultimately show "(c x, i x) \<le> (c y, i y)" by (simp add: less_eq_prod_def less_prod_def)
  qed
  then show ?thesis by (simp add: sorted_map)
qed

lemma createdAt_order_getHighlightsByBook:
  "sorted (map (\<lambda>h. (hl_createdAt h, hl_id h)) (getHighlightsByBook db d now))"
  by (rule sorted_within_book[where d = d, OF index_order_getHighlightsByBook]) (simp add: set_getHighlightsByBook)


lemma sorted_before:
  "sorted (map K xs) \<Longrightarrow> x \<in> set xs \<Longrightarrow> y \<in> set xs \<Longrightarrow> K x < K y \<Longrightarrow> before xs x y"
proof (induction xs)
  case Nil
  then show ?case by simp
next
  case (Cons z zs)
  show ?case
  proof (cases "z = x")
    case True
    then show ?thesis using Cons.prems by auto
  next
    case False
    then have x: "x \<in> set zs" using Cons.prems by simp
    have "y \<noteq> z"
    proof
      assume "y = z"
      then have "K y \<le> K x" using Cons.prems(1) x by simp
      then show False using Cons.prems(4) by simp
    qed
    then have "y \<in> set zs" using Cons.prems by simp
    then show ?thesis using Cons False x by simp
  qed
qed

lemma sorted_not_before:
  "sorted (map K xs) \<Longrightarrow> K y < K x \<Longrightarrow> \<not> before xs x y"
proof (induction xs)
  case Nil
  then show ?case by simp
next
  case (Cons z zs)
  show ?case
  proof (cases "z = x")
    case True
    have "y \<notin> set zs"
    proof
      assume "y \<in> set zs"
      then have "K x \<le> K y" using Cons.prems(1) True by simp
      then show False using Cons.prems(2) by simp
    qed
    then show ?thesis using True by simp
  next
    case False
    then show ?thesis using Cons by simp
  qed
qed


lemmas eval_db = eval_defs cursor_loop_append

subsection \<open>Updating a highlight\<close>

text \<open>
  C1 (as the code has it). \<open>updateHighlight\<close> writes with \<open>put\<close>, which inserts when the key is
  new. For a highlight whose id is not in the store, the update resolves with the id whenever
  the storage layer carries out the call, and the store then holds the record, with its
  \<open>updatedAt\<close> refreshed, beside all the records it held before. The only failure is the
  storage layer's rejection, which leaves the database as it was. There is no not-found error.
\<close>

theorem updateHighlight_unknown_id_inserts:
  assumes "hl_id h \<notin> hl_id ` set (highlights db)"
  shows "fst (updateHighlight True db h t) = Inr (hl_id h, h\<lparr>hl_updatedAt := t\<rparr>)
    \<and> set (highlights (snd (updateHighlight True db h t))) =
        insert (h\<lparr>hl_updatedAt := t\<rparr>) (set (highlights db))
    \<and> books (snd (updateHighlight True db h t)) = books db
    \<and> updateHighlight False db h t = (Inl StorageError, db)"
proof -
  have "\<And>x. x \<in> set (highlights db) \<Longrightarrow> hl_id x \<noteq> hl_id h"
    using assms by (metis imageI)
  then have "filter (\<lambda>x. hl_id x \<noteq> hl_id h) (highlights db) = highlights db"
    by simp
  then show ?thesis
    by (simp add: updateHighlight_def idb_put_def Let_def set_insort_key)
qed

text \<open>An update of the unknown id \<open>h1\<close> on a store that holds only \<open>h2\<close>.\<close>

theorem updateHighlight_unknown_id_inserts_witness:
  "fst (updateHighlight True (empty_db\<lparr>highlights := [hlB]\<rparr>) hlA 7) = Inr (''h1'', hlA\<lparr>hl_updatedAt := 7\<rparr>)
    \<and> set (highlights (snd (updateHighlight True (empty_db\<lparr>highlights := [hlB]\<rparr>) hlA 7))) =
        {hlA\<lparr>hl_updatedAt := 7\<rparr>, hlB}
    \<and> updateHighlight False (empty_db\<lparr>highlights := [hlB]\<rparr>) hlA 7
        = (Inl StorageError, empty_db\<lparr>highlights := [hlB]\<rparr>)"
  using updateHighlight_unknown_id_inserts[of hlA "empty_db\<lparr>highlights := [hlB]\<rparr>" 7]
  by (simp add: hlA_def hlB_def sample_hl_def empty_db_def)

text \<open>
  The claim as stated fails: on the empty store, updating the highlight \<open>h1\<close> resolves and
  leaves the store with one record.
\<close>

theorem updateHighlight_unknown_id_counterexample:
  "hl_id hlA \<notin> hl_id ` set (highlights empty_db)
   \<and> fst (updateHighlight True empty_db hlA 7) = Inr (''h1'', hlA\<lparr>hl_updatedAt := 7\<rparr>)
   \<and> highlights (snd (updateHighlight True empty_db hlA 7)) = [hlA\<lparr>hl_updatedAt := 7\<rparr>]
   \<and> highlights (snd (updateHighlight True empty_db hlA 7)) \<noteq> highlights empty_db"
  by (simp add: eval_db)

subsection \<open>Creating a highlight\<close>

text \<open>
  C2 (as the code has it). \<open>addHighlight\<close> checks none of its input's fields. For an input
  whose \<open>bookId\<close> or \<open>cfiRange\<close> is the empty string, the call resolves with the id whenever the
  storage layer carries out the call, and the stamped record is in the store afterwards. The
  only failure is the storage layer's rejection, which leaves the database as it was.
\<close>

theorem addHighlight_no_validation:
  assumes "hl_bookId h = [] \<or> hl_cfiRange h = []"
  shows "fst (addHighlight True db h t1 t2)
           = Inr (hl_id h, h\<lparr>hl_createdAt := t1, hl_updatedAt := t2\<rparr>)
    \<and> h\<lparr>hl_createdAt := t1, hl_updatedAt := t2\<rparr>
        \<in> set (highlights (snd (addHighlight True db h t1 t2)))
    \<and> addHighlight False db h t1 t2 = (Inl StorageError, db)"
  by (simp add: addHighlight_def idb_put_def Let_def set_insort_key)

text \<open>A highlight with an empty \<open>cfiRange\<close>, created on the empty store.\<close>

theorem addHighlight_no_validation_witness:
  "fst (addHighlight True empty_db (sample_hl ''h1'' ''doc1'' []) 5 6)
      = Inr (''h1'', (sample_hl ''h1'' ''doc1'' [])\<lparr>hl_createdAt := 5, hl_updatedAt := 6\<rparr>)
    \<and> (sample_hl ''h1'' ''doc1'' [])\<lparr>hl_createdAt := 5, hl_updatedAt := 6\<rparr>
        \<in> set (highlights (snd (addHighlight True empty_db (sample_hl ''h1'' ''doc1'' []) 5 6)))
    \<and> addHighlight False empty_db (sample_hl ''h1'' ''doc1'' []) 5 6 = (Inl StorageError, empty_db)"
  using addHighlight_no_validation[of "sample_hl ''h1'' ''doc1'' []" empty_db 5 6]
  by (simp add: sample_hl_def)

text \<open>
  The claim as stated fails: a highlight with empty \<open>bookId\<close> and empty \<open>cfiRange\<close> is stored.
\<close>

theorem addHighlight_validation_counterexample:
  "hl_bookId (sample_hl ''h1'' [] []) = [] \<and> hl_cfiRange (sample_hl ''h1'' [] []) = []
   \<and> fst (addHighlight True empty_db (sample_hl ''h1'' [] []) 5 6)
       = Inr (''h1'', (sample_hl ''h1'' [] [])\<lparr>hl_createdAt := 5, hl_updatedAt := 6\<rparr>)
   \<and> highlights (snd (addHighlight True empty_db (sample_hl ''h1'' [] []) 5 6)) =
       [(sample_hl ''h1'' [] [])\<lparr>hl_createdAt := 5, hl_updatedAt := 6\<rparr>]"
  by (simp add: eval_db)

subsection \<open>Listing the highlights of a book\<close>




text \<open>
  C4 (as the code has it). Two highlights \<open>a\<close> then \<open>b\<close> with different ids are created in
  the same book with the same \<open>createdAt\<close>, which lies in the key range of the query: not
  before the epoch and at most 365 days, 31536000000 milliseconds, after the clock reading of
  the query. Then \<open>getHighlightsByBook\<close> returns both, and the index breaks the tie by the
  primary key: \<open>a\<close> stands before \<open>b\<close> exactly when the id of \<open>a\<close> is the smaller one, and \<open>b\<close>
  before \<open>a\<close> exactly when the id of \<open>b\<close> is. The order of insertion plays no part.
\<close>

theorem tie_order_by_id:
  assumes "hl_id a \<noteq> hl_id b" and "hl_bookId a = d" and "hl_bookId b = d"
    and "0 \<le> t" and "t \<le> now + 31536000000"
  shows "let a' = a\<lparr>hl_createdAt := t, hl_updatedAt := ta\<rparr>;
             b' = b\<lparr>hl_createdAt := t, hl_updatedAt := tb\<rparr>;
             R = getHighlightsByBook (create_all db [(a, t, ta), (b, t, tb)]) d now
         in a' \<in> set R \<and> b' \<in> set R
            \<and> (before R a' b' \<longleftrightarrow> hl_id a < hl_id b)
            \<and> (before R b' a' \<longleftrightarrow> hl_id b < hl_id a)"
proof -
  define a' where "a' = stamp a t ta"
  define b' where "b' = stamp b t tb"
  define R where "R = getHighlightsByBook (create_all db [(a, t, ta), (b, t, tb)]) d now"
  have ina: "a' \<in> set R" and inb: "b' \<in> set R"
    using assms unfolding R_def set_getHighlightsByBook create_all.simps set_addHighlight a'_def b'_def
    by (simp_all add: stamp_def year_ms_def)
  have srt: "sorted (map (\<lambda>h. (hl_createdAt h, hl_id h)) R)"
    unfolding R_def by (rule createdAt_order_getHighlightsByBook)
  have key: "\<And>x y. hl_id x < hl_id y \<Longrightarrow> hl_createdAt x = hl_createdAt y \<Longrightarrow>
      (hl_createdAt x, hl_id x) < (hl_createdAt y, hl_id y)"
    by (simp add: less_prod_def)
  have ca: "hl_createdAt a' = t" "hl_id a' = hl_id a" and cb: "hl_createdAt b' = t" "hl_id b' = hl_id b"
    by (simp_all add: a'_def b'_def stamp_def)
  have ab: "hl_id a < hl_id b \<Longrightarrow> before R a' b' \<and> \<not> before R b' a'"
    using sorted_before[OF srt ina inb] sorted_not_before[OF srt, of a' b'] key[of a' b'] ca cb by simp
  have ba: "hl_id b < hl_id a \<Longrightarrow> before R b' a' \<and> \<not> before R a' b'"
    using sorted_before[OF srt inb ina] sorted_not_before[OF srt, of b' a'] key[of b' a'] ca cb by simp
  have "hl_id a < hl_id b \<or> hl_id b < hl_id a" using assms(1) by auto
  then have "a' \<in> set R \<and> b' \<in> set R \<and> (before R a' b' \<longleftrightarrow> hl_id a < hl_id b)
       \<and> (before R b' a' \<longleftrightarrow> hl_id b < hl_id a)"
    using ab ba ina inb by auto
  then show ?thesis
    unfolding Let_def a'_def b'_def R_def stamp_def .
qed

text \<open>The highlight \<open>h1\<close> then \<open>h2\<close>, both created at 5: \<open>h1\<close> is listed first.\<close>

theorem tie_order_by_id_witness:
  "before (getHighlightsByBook (create_all empty_db [(hlA, 5, 5), (hlB, 5, 6)]) ''doc1'' 9)
      (hlA\<lparr>hl_createdAt := 5, hl_updatedAt := 5\<rparr>) (hlB\<lparr>hl_createdAt := 5, hl_updatedAt := 6\<rparr>)
   \<and> hl_id hlA < hl_id hlB"
  using tie_order_by_id[of hlA hlB "''doc1''" 5 9 5 6 empty_db]
  by (simp add: hlA_def hlB_def sample_hl_def year_ms_def Let_def)

text \<open>
  The claim as stated fails: \<open>h2\<close> is created first and \<open>h1\<close> second, at the same time, and
  the list has \<open>h1\<close> first.
\<close>

theorem tie_insertion_order_counterexample:
  "getHighlightsByBook (create_all empty_db [(hlB, 5, 5), (hlA, 5, 5)]) ''doc1'' 9 =
     [hlA\<lparr>hl_createdAt := 5, hl_updatedAt := 5\<rparr>, hlB\<lparr>hl_createdAt := 5, hl_updatedAt := 5\<rparr>]
   \<and> \<not> before (getHighlightsByBook (create_all empty_db [(hlB, 5, 5), (hlA, 5, 5)]) ''doc1'' 9)
      (hlB\<lparr>hl_createdAt := 5, hl_updatedAt := 5\<rparr>) (hlA\<lparr>hl_createdAt := 5, hl_updatedAt := 5\<rparr>)"
  by (simp add: eval_db)

subsection \<open>Deleting a highlight\<close>

text \<open>
  C5. \<open>deleteHighlight\<close> is idempotent. When the storage layer carries out the write, the
  delete resolves whether or not a record with the id exists; when none exists the database
  is unchanged; a second delete of the same id resolves too and changes nothing further. In
  every case the records with a different id, and the books, are as before.
\<close>

theorem deleteHighlight_idempotent:
  "fst (deleteHighlight True db k) = Inr ()
   \<and> (k \<notin> hl_id ` set (highlights db) \<longrightarrow> snd (deleteHighlight True db k) = db)
   \<and> deleteHighlight True (snd (deleteHighlight True db k)) k = (Inr (), snd (deleteHighlight True db k))
   \<and> filter (\<lambda>h. hl_id h \<noteq> k) (highlights (snd (deleteHighlight ok db k))) =
       filter (\<lambda>h. hl_id h \<noteq> k) (highlights db)
   \<and> books (snd (deleteHighlight ok db k)) = books db"
proof -
  have "k \<notin> hl_id ` set (highlights db) \<Longrightarrow> filter (\<lambda>x. hl_id x \<noteq> k) (highlights db) = highlights db"
    by (rule filter_True) auto
  then show ?thesis
    by (simp add: deleteHighlight_def idb_delete_def)
qed

text \<open>
  Deleting the absent id \<open>h3\<close> from a store with \<open>h1\<close> and \<open>h2\<close>, and deleting \<open>h1\<close> twice.
\<close>

theorem deleteHighlight_idempotent_witness:
  "fst (deleteHighlight True (empty_db\<lparr>highlights := [hlA, hlB]\<rparr>) ''h3'') = Inr ()
   \<and> snd (deleteHighlight True (empty_db\<lparr>highlights := [hlA, hlB]\<rparr>) ''h3'') = empty_db\<lparr>highlights := [hlA, hlB]\<rparr>
   \<and> highlights (snd (deleteHighlight True (empty_db\<lparr>highlights := [hlA, hlB]\<rparr>) ''h1'')) = [hlB]
   \<and> deleteHighlight True (snd (deleteHighlight True (empty_db\<lparr>highlights := [hlA, hlB]\<rparr>) ''h1'')) ''h1''
       = (Inr (), empty_db\<lparr>highlights := [hlB]\<rparr>)"
  using deleteHighlight_idempotent[of "empty_db\<lparr>highlights := [hlA, hlB]\<rparr>" "''h3''" True]
  by (simp add: eval_db)

subsection \<open>Deleting a book\<close>

text \<open>
  C10. \<open>deleteBook\<close> leaves the highlights store unchanged: the highlights of the deleted
  book stay stored, and \<open>getHighlightsByBook\<close> and \<open>getAllHighlights\<close> return what they returned
  before. Nothing cascades.
\<close>

theorem deleteBook_keeps_highlights:
  "highlights (snd (deleteBook ok db ident)) = highlights db
   \<and> getHighlightsByBook (snd (deleteBook ok db ident)) bookId now = getHighlightsByBook db bookId now
   \<and> getAllHighlights (snd (deleteBook ok db ident)) = getAllHighlights db"
  by (simp add: getHighlightsByBook_def getAllHighlights_def highlights_deleteBook)

text \<open>
  The book \<open>doc1\<close> is deleted; its highlight \<open>h1\<close> is still listed for it, and among all
  highlights.
\<close>

theorem deleteBook_keeps_highlights_witness:
  "books (snd (deleteBook True \<lparr>books = [sample_book], highlights = [hlA, hlX]\<rparr> ''doc1'')) = []
   \<and> getHighlightsByBook (snd (deleteBook True \<lparr>books = [sample_book], highlights = [hlA, hlX]\<rparr> ''doc1'')) ''doc1'' 9 = [hlA]
   \<and> getAllHighlights (snd (deleteBook True \<lparr>books = [sample_book], highlights = [hlA, hlX]\<rparr> ''doc1'')) = [hlX, hlA]"
  using deleteBook_keeps_highlights[of True "\<lparr>books = [sample_book], highlights = [hlA, hlX]\<rparr>" "''doc1''" "''doc1''" 9]
  by (simp add: eval_db)

section \<open>Properties of the highlights panel\<close>












section \<open>Properties of the highlight handlers\<close>

lemmas eval_ui = handleHighlightSelection_def handleRemoveHighlight_def handleRemoveHighlightById_def
  annotations_add_def annotations_remove_def reading_session_def selecting_session_def

text \<open>
  C7. In \<open>handleHighlightSelection\<close> the overlay is registered only after the store write has
  resolved. The effects of a call are none, or the store write alone, or the store write
  followed by the registration. When the storage layer rejects the write, the overlays and
  the store are as before. Whenever the overlays change, the write was carried out and the
  store holds the new highlight.
\<close>

theorem overlay_only_after_store_write:
  "let s' = handleHighlightSelection storage_ok overlay_ok bookId uuid clock color s;
       added = drop (length (effects s)) (effects s')
   in added \<in> {[], [Persisted uuid], [Persisted uuid, Registered uuid]}
      \<and> (\<not> storage_ok \<longrightarrow> annotations s' = annotations s \<and> store s' = store s \<and> added = [])
      \<and> (annotations s' \<noteq> annotations s \<longrightarrow>
            storage_ok \<and> added = [Persisted uuid, Registered uuid]
            \<and> (\<exists>h\<in>set (highlights (store s')).
                  hl_id h = uuid \<and> hl_bookId h = bookId \<and> Some (hl_cfiRange h) = selectionCfiRange s))"
  by (cases storage_ok; cases overlay_ok; cases "selectionCfiRange s")
     (auto simp: handleHighlightSelection_def addHighlight_def idb_put_def annotations_add_def
        Let_def set_insort_key)

text \<open>
  A selection is highlighted in yellow: with the write rejected no overlay appears and nothing
  is stored; with the write carried out the record is stored and then its overlay registered.
\<close>

theorem overlay_only_after_store_write_witness:
  "annotations (handleHighlightSelection False True ''doc1'' ''h7'' (\<lambda>k. 5) ''yellow'' selecting_session) = []
   \<and> highlights (store (handleHighlightSelection False True ''doc1'' ''h7'' (\<lambda>k. 5) ''yellow'' selecting_session)) = []
   \<and> annotations (handleHighlightSelection True True ''doc1'' ''h7'' (\<lambda>k. 5) ''yellow'' selecting_session)
       = [(''cfi9'', ''h7'', ''yellow'')]
   \<and> effects (handleHighlightSelection True True ''doc1'' ''h7'' (\<lambda>k. 5) ''yellow'' selecting_session)
       = [Persisted ''h7'', Registered ''h7'']
   \<and> map hl_id (highlights (store (handleHighlightSelection True True ''doc1'' ''h7'' (\<lambda>k. 5) ''yellow'' selecting_session)))
       = [''h7'']"
  using overlay_only_after_store_write[of True True "''doc1''" "''h7''" "\<lambda>k. 5" "''yellow''" selecting_session]
  by (simp add: eval_ui eval_db)

text \<open>
  C6 (what the code does). In \<open>handleRemoveHighlight\<close> and \<open>handleRemoveHighlightById\<close> the call
  of \<open>annotations.remove\<close> stands inside the same \<open>try\<close> block as the call of
  \<open>deleteHighlight\<close>, before it. When the engine throws, control passes to the \<open>catch\<close>
  clause: the error is logged and nothing else happens, so the record is neither deleted from
  the store nor dropped from the component's list.
\<close>

theorem overlay_failure_blocks_delete:
  "(truthy (activeHighlightId s) \<and> truthy (activeHighlightCfiRange s) \<and> renditionRef_current s \<longrightarrow>
      handleRemoveHighlight storage_ok False s
        = s\<lparr>console_errors := console_errors s @ [''Failed to remove highlight:'']\<rparr>)
   \<and> (find (\<lambda>hl. hl_id hl = highlightId) (currentBookHighlights s) \<noteq> None \<and> renditionRef_current s \<longrightarrow>
      handleRemoveHighlightById storage_ok False highlightId s
        = s\<lparr>console_errors := console_errors s @ [''Failed to remove highlight by ID:'']\<rparr>)"
  by (auto simp: handleRemoveHighlight_def handleRemoveHighlightById_def annotations_remove_def)

text \<open>
  The active highlight \<open>h1\<close> is removed while the engine throws: the session only gains a
  console message and \<open>h1\<close> is still stored. With an engine that does not throw, the same
  call empties the store.
\<close>

theorem overlay_failure_blocks_delete_witness:
  "handleRemoveHighlight True False reading_session
     = reading_session\<lparr>console_errors := [''Failed to remove highlight:'']\<rparr>
   \<and> highlights (store (handleRemoveHighlight True False reading_session)) = [hlA]
   \<and> currentBookHighlights (handleRemoveHighlight True False reading_session) = [hlA]
   \<and> effects (handleRemoveHighlight True False reading_session) = []
   \<and> highlights (store (handleRemoveHighlightById True False ''h1'' reading_session)) = [hlA]
   \<and> effects (handleRemoveHighlightById True False ''h1'' reading_session) = []
   \<and> highlights (store (handleRemoveHighlight True True reading_session)) = []"
  using overlay_failure_blocks_delete[of reading_session True "''h1''"]
  by (simp add: eval_ui eval_db)

section \<open>Properties of the preload\<close>

lemmas eval_preload = preloadBook_def getItem_def setItem_def fresh_browser_def fetch_fails_def
  fetch_ok_def parse_ok_def fileName_def addBook_def idb_put_def empty_db_def sample_book_def Let_def

text \<open>
  C9 (what the code does). \<open>preloadBook\<close> sets the flag \<open>preloadDone\<close> after its \<open>try\<close> block,
  whatever happened inside it. When the flag is not yet set, it is set after the call; when
  fetching fails (a rejected request or a response that is not ok), parsing fails, or the
  storage layer rejects the book, the error is logged and the library is as before; and any
  later call returns at once, so the book is never preloaded although it is not in the
  database.
\<close>

theorem preloadBook_sets_flag:
  assumes "getItem (localStorage w) ''preloadDone'' \<noteq> Some ''true''"
  shows "getItem (localStorage (preloadBook fetch parseEpub storage_ok epubPath w)) ''preloadDone''
           = Some ''true''
    \<and> (isl (fetch epubPath)
        \<or> (\<exists>st blob. fetch epubPath = Inr (False, st, blob))
        \<or> (\<exists>st blob. fetch epubPath = Inr (True, st, blob) \<and> isl (parseEpub (fileName epubPath, blob)))
        \<or> \<not> storage_ok \<longrightarrow>
          library (preloadBook fetch parseEpub storage_ok epubPath w) = library w
        \<and> console_log (preloadBook fetch parseEpub storage_ok epubPath w)
            = console_log w @ [''Error preloading book:''])
    \<and> preloadBook fetch' parseEpub' storage_ok' epubPath'
          (preloadBook fetch parseEpub storage_ok epubPath w)
        = preloadBook fetch parseEpub storage_ok epubPath w"
proof -
  let ?w' = "preloadBook fetch parseEpub storage_ok epubPath w"
  have flag: "getItem (localStorage ?w') ''preloadDone'' = Some ''true''"
    using assms by (simp add: preloadBook_def getItem_def setItem_def Let_def)
  have fail: "isl (fetch epubPath)
        \<or> (\<exists>st blob. fetch epubPath = Inr (False, st, blob))
        \<or> (\<exists>st blob. fetch epubPath = Inr (True, st, blob) \<and> isl (parseEpub (fileName epubPath, blob)))
        \<or> \<not> storage_ok \<Longrightarrow>
          library ?w' = library w \<and> console_log ?w' = console_log w @ [''Error preloading book:'']"
    using assms
    by (auto simp: preloadBook_def getItem_def setItem_def Let_def addBook_def idb_put_def isl_def
        split: sum.splits prod.splits)
  have again: "preloadBook fetch' parseEpub' storage_ok' epubPath' ?w' = ?w'"
    using flag by (simp add: preloadBook_def[of fetch' parseEpub' storage_ok' epubPath' ?w'])
  show ?thesis using flag fail again by blast
qed

text \<open>
  The first run cannot fetch the book: the flag is set and the library is still empty. A
  second run, with a network that answers and a parser and a store that work, does nothing,
  and the book is still not in the library.
\<close>

theorem preloadBook_sets_flag_witness:
  "getItem (localStorage fresh_browser) ''preloadDone'' = None
   \<and> isl (fetch_fails ''/asimov/example.epub'')
   \<and> getItem (localStorage (preloadBook fetch_fails parse_ok True ''/asimov/example.epub'' fresh_browser))
      ''preloadDone'' = Some ''true''
   \<and> books (library (preloadBook fetch_fails parse_ok True ''/asimov/example.epub'' fresh_browser)) = []
   \<and> preloadBook fetch_ok parse_ok True ''/asimov/example.epub''
        (preloadBook fetch_fails parse_ok True ''/asimov/example.epub'' fresh_browser)
      = preloadBook fetch_fails parse_ok True ''/asimov/example.epub'' fresh_browser
   \<and> books (library (preloadBook fetch_ok parse_ok True ''/asimov/example.epub''
        (preloadBook fetch_fails parse_ok True ''/asimov/example.epub'' fresh_browser))) = []
   \<and> books (library (preloadBook fetch_ok parse_ok True ''/asimov/example.epub'' fresh_browser))
      = [sample_book]"
  using preloadBook_sets_flag[of fresh_browser fetch_fails parse_ok True "''/asimov/example.epub''"
      fetch_ok parse_ok True "''/asimov/example.epub''"]
  by (simp add: eval_preload)

end
